theory Spec2Isabelle
  imports Complex_Main "HOL-Library.Sublist" "HOL-Library.AList"
begin

section \<open>Pose Compositional Tokens: the tokenizer of \<open>pct_tokenizer.py\<close>\<close>

text \<open>
  The development embeds \<open>PCT_Tokenizer.forward\<close> and \<open>PCT_Tokenizer.init_weights\<close>.

  Conventions of the embedding.
  \<^item> A tensor is a nested list: a vector is a list, a matrix a list of rows, a rank-3 tensor a
    list of matrices. The embedding of \<open>forward\<close> as a whole, which carries the dispatch on
    stage and mode, the buffers and the moving average, computes over exact reals; there
    division by zero has the HOL value \<open>0\<close>.
  \<^item> The three places where a property depends on how the 32-bit floats round, overflow or
    propagate NaN are embedded a second time in binary32: lines 170-185 (the masked blend),
    lines 195-199 (the distances and their argmin) and line 238 (the straight-through value).
  \<^item> Nested lists carry no shape of their own. The definitions follow the source on tensors whose
    dimensions are positive and conform to each other (inner dimensions of a product, operands of
    an element-wise operation); on other lists \<open>zip\<close> truncates where torch would raise or
    broadcast. The failures that the source's own control flow decides are results of the model:
    the unbound local \<open>encodings\<close>, the integer division by \<open>token_num\<close>, the reshape
    \<open>view(bs, -1, token_dim)\<close> and the assertion of \<open>init_weights\<close>.
  \<^item> \<open>detach\<close> and \<open>clone\<close> do not change values and are the identity here; gradients are
    not modelled.
  \<^item> \<open>MixerLayer\<close> comes from \<open>.modules\<close>, which is not part of the file. A mixer block is
    a parameter of the model: any function on rank-3 tensors.
  \<^item> The random draw of \<open>torch.rand\<close> and the payloads the other workers contribute to
    \<open>dist.all_reduce\<close> are arguments of \<open>forward\<close>.
\<close>

subsection \<open>Tensors and the torch operations used\<close>

type_synonym vec = "real list"
type_synonym mat = "real list list"
type_synonym tensor3 = "real list list list"

datatype error =
    UnboundLocalError
  | ZeroDivisionError
  | RuntimeError
  | KeyError string
  | AssertionError string

text \<open>\<open>nn.Linear\<close>: \<open>weight\<close> has shape \<open>[out_features, in_features]\<close>.\<close>

record linear =
  weight :: mat
  bias :: vec

text \<open>\<open>nn.LayerNorm\<close> over the last dimension.\<close>

record layer_norm =
  ln_weight :: vec
  ln_bias :: vec
  ln_eps :: real

definition dot :: "vec \<Rightarrow> vec \<Rightarrow> real" where
  "dot xs ys = sum_list (map2 (*) xs ys)"

definition linear_apply :: "linear \<Rightarrow> vec \<Rightarrow> vec" where
  "linear_apply l x = map2 (\<lambda>row b. dot row x + b) (weight l) (bias l)"

definition layer_norm_apply :: "layer_norm \<Rightarrow> vec \<Rightarrow> vec" where
  "layer_norm_apply nrm x =
     (let mean = sum_list x / real (length x);
          var = sum_list (map (\<lambda>v. (v - mean)\<^sup>2) x) / real (length x)
      in map2 (\<lambda>v (g, b). (v - mean) / sqrt (var + ln_eps nrm) * g + b)
           x (zip (ln_weight nrm) (ln_bias nrm)))"

text \<open>\<open>torch.matmul\<close> of two matrices.\<close>

definition matmul :: "mat \<Rightarrow> mat \<Rightarrow> mat" where
  "matmul a b = map (\<lambda>row. map (dot row) (transpose b)) a"

text \<open>\<open>torch.argmin\<close> along a row: the index of the first minimal value.\<close>

fun argmin :: "real list \<Rightarrow> nat" where
  "argmin [] = 0"
| "argmin [x] = 0"
| "argmin (x # y # ys) =
     (let i = argmin (y # ys) in if x \<le> (y # ys) ! i then 0 else Suc i)"

text \<open>
  Lines 195-197: \<open>sum(x**2, dim=1, keepdim=True) + sum(codebook**2, dim=1) - 2 * x @ codebook.t()\<close>,
  one row per feature vector and one column per codebook entry.
\<close>

definition distances :: "mat \<Rightarrow> mat \<Rightarrow> mat" where
  "distances feat cb =
     map (\<lambda>x. map (\<lambda>c. sum_list (map (\<lambda>v. v\<^sup>2) x) + sum_list (map (\<lambda>v. v\<^sup>2) c) - 2 * dot x c) cb)
       feat"

text \<open>Line 199: \<open>torch.argmin(distances, dim=1)\<close>.\<close>

definition nearest :: "mat \<Rightarrow> mat \<Rightarrow> nat list" where
  "nearest feat cb = map argmin (distances feat cb)"

text \<open>Lines 200-202: a row of zeros of width \<open>k\<close> with a one scattered at index \<open>i\<close>.\<close>

definition one_hot :: "nat \<Rightarrow> nat \<Rightarrow> vec" where
  "one_hot k i = map (\<lambda>c. if c = i then 1 else 0) [0..<k]"

text \<open>\<open>F.mse_loss\<close> with the default mean reduction.\<close>

definition mse_loss :: "mat \<Rightarrow> mat \<Rightarrow> real" where
  "mse_loss a b =
     (let d = concat (map2 (map2 (\<lambda>x y. (x - y)\<^sup>2)) a b)
      in sum_list d / real (length d))"

text \<open>The shape of a matrix, and \<open>view\<close> of a flat vector as a matrix of a given shape.\<close>

definition shape2 :: "mat \<Rightarrow> nat \<times> nat" where
  "shape2 m = (length m, case m of [] \<Rightarrow> 0 | r # _ \<Rightarrow> length r)"

definition view2 :: "nat \<times> nat \<Rightarrow> vec \<Rightarrow> mat" where
  "view2 sh xs = map (\<lambda>i. take (snd sh) (drop (i * snd sh) xs)) [0..<fst sh]"

text \<open>
  Line 243: \<open>view(bs, -1, token_dim)\<close> of an \<open>[N, token_dim]\<close> matrix groups its rows into
  \<open>bs\<close> blocks of \<open>N / bs\<close> rows; torch raises when \<open>bs\<close> is zero or does not divide \<open>N\<close>.
\<close>

definition view3 :: "nat \<Rightarrow> mat \<Rightarrow> error + tensor3" where
  "view3 bs rows =
     (if bs = 0 \<or> length rows mod bs \<noteq> 0 then Inl RuntimeError
      else Inr (map (\<lambda>i. take (length rows div bs) (drop (i * (length rows div bs)) rows))
                  [0..<bs]))"

text \<open>
  \<open>dist.all_reduce\<close> with the default sum: every worker's payload is added element-wise.
  \<open>peers\<close> are the payloads of the other workers.
\<close>

definition all_reduce :: "vec \<Rightarrow> vec list \<Rightarrow> vec" where
  "all_reduce combined peers = foldl (map2 (+)) combined peers"

subsection \<open>The module\<close>

text \<open>
  The attributes of \<open>PCT_Tokenizer\<close> that \<open>forward\<close> and \<open>init_weights\<close> read or write.
  \<open>codebook\<close>, \<open>ema_cluster_size\<close> and \<open>ema_w\<close> are the registered buffers.
  \<open>start_img_embed\<close> exists in the source only when \<open>guide_ratio > 0\<close> and is read only then.
\<close>

record pct =
  stage_pct :: string
  guide_ratio :: real
  drop_rate :: real
  token_num :: nat
  token_class_num :: nat
  token_dim :: nat
  decay :: real
  invisible_token :: vec
  start_img_embed :: linear
  start_embed :: linear
  encoder :: "(tensor3 \<Rightarrow> tensor3) list"
  encoder_layer_norm :: layer_norm
  token_mlp :: linear
  feature_embed :: linear
  codebook :: mat
  ema_cluster_size :: vec
  ema_w :: mat
  decoder_token_mlp :: linear
  decoder_start :: linear
  decoder :: "(tensor3 \<Rightarrow> tensor3) list"
  decoder_layer_norm :: layer_norm
  recover_embed :: linear

subsection \<open>The encoder, lines 170-193\<close>

text \<open>
  Lines 170-185. \<open>joints[:,:,:-1]\<close> are the coordinates, \<open>joints[:,:,-1].bool()\<close> the visibility.
  \<open>rnd b j\<close> is the value \<open>torch.rand\<close> draws for joint \<open>j\<close> of batch element \<open>b\<close>.
\<close>

definition joints_visible :: "pct \<Rightarrow> tensor3 \<Rightarrow> bool \<Rightarrow> (nat \<Rightarrow> nat \<Rightarrow> real) \<Rightarrow> bool list list" where
  "joints_visible self joints train rnd =
     (let visible = map (map (\<lambda>p. last p \<noteq> 0)) joints
      in if train \<and> stage_pct self = ''tokenizer''
         then map2 (\<lambda>b row. map2 (\<lambda>j v. rnd b j > drop_rate self \<and> v) [0..<length row] row)
                [0..<length visible] visible
         else visible)"

definition start_features :: "pct \<Rightarrow> tensor3 \<Rightarrow> tensor3 \<Rightarrow> tensor3" where
  "start_features self joints joints_feature =
     (let encode_feat = map (map (\<lambda>p. linear_apply (start_embed self) (butlast p))) joints
      in if guide_ratio self > 0
         then map2 (map2 (@)) encode_feat
                (map (map (linear_apply (start_img_embed self))) joints_feature)
         else encode_feat)"

definition blend :: "vec \<Rightarrow> vec \<Rightarrow> bool \<Rightarrow> vec" where
  "blend mask_token e v =
     (let w = (if v then 1 else 0) in map2 (\<lambda>x m. x * w + m * (1 - w)) e mask_token)"

definition masked_features ::
  "pct \<Rightarrow> tensor3 \<Rightarrow> tensor3 \<Rightarrow> bool \<Rightarrow> (nat \<Rightarrow> nat \<Rightarrow> real) \<Rightarrow> tensor3" where
  "masked_features self joints joints_feature train rnd =
     map2 (map2 (blend (invisible_token self)))
       (start_features self joints joints_feature)
       (joints_visible self joints train rnd)"

text \<open>
  Lines 187-193: the mixer blocks, the layer norm, the projection of the joint axis onto the
  token slots, the projection of the channels, and \<open>flatten(0, 1)\<close>.
\<close>

definition encode :: "pct \<Rightarrow> tensor3 \<Rightarrow> mat" where
  "encode self x =
     (let x1 = fold (\<lambda>layer t. layer t) (encoder self) x;
          x2 = map (map (layer_norm_apply (encoder_layer_norm self))) x1;
          x3 = map (\<lambda>m. transpose (map (linear_apply (token_mlp self)) (transpose m))) x2;
          x4 = map (map (linear_apply (feature_embed self))) x3
      in concat x4)"

subsection \<open>The exponential moving average of the codebook, lines 217-236\<close>

text \<open>
  Lines 231-233: \<open>(ema_cluster_size + 1e-5) / (n + token_class_num * 1e-5) * n\<close>, where \<open>n\<close>
  is the sum of the entries.
\<close>

definition laplace_smooth :: "nat \<Rightarrow> vec \<Rightarrow> vec" where
  "laplace_smooth k s =
     (let n = sum_list s
      in map (\<lambda>x. (x + 1 / 100000) / (n + real k * (1 / 100000)) * n) s)"

text \<open>Lines 227-233: the decayed occupancy counts, then the smoothing.\<close>

definition cluster_size_update :: "pct \<Rightarrow> mat \<Rightarrow> vec" where
  "cluster_size_update self sync_encodings =
     laplace_smooth (token_class_num self)
       (map2 (\<lambda>s c. s * decay self + (1 - decay self) * c)
          (ema_cluster_size self) (map sum_list (transpose sync_encodings)))"

text \<open>Lines 227-236, after the reduction: the three buffers are reassigned.\<close>

definition ema_assign :: "pct \<Rightarrow> mat \<Rightarrow> mat \<Rightarrow> pct" where
  "ema_assign self sync_encodings sync_dw =
     (let size' = cluster_size_update self sync_encodings;
          w' = map2 (map2 (\<lambda>w d. w * decay self + (1 - decay self) * d)) (ema_w self) sync_dw
      in self\<lparr>ema_cluster_size := size',
              ema_w := w',
              codebook := map2 (\<lambda>row s. map (\<lambda>x. x / s) row) w' size'\<rparr>)"

text \<open>
  Lines 217-236: \<open>dw\<close>, the payload \<open>cat(encodings.flatten(), dw.flatten())\<close>, the reduction
  over the workers, the split of the result, and the assignment of the buffers.
\<close>

definition ema_update :: "pct \<Rightarrow> mat \<Rightarrow> mat \<Rightarrow> vec list \<Rightarrow> pct" where
  "ema_update self encodings encode_feat peers =
     (let dw = matmul (transpose encodings) encode_feat;
          n_encodings = length (concat encodings);
          n_dw = length (concat dw);
          combined = all_reduce (concat encodings @ concat dw) peers;
          sync_encodings = view2 (shape2 encodings) (take n_encodings combined);
          sync_dw = view2 (shape2 dw) (take n_dw (drop n_encodings combined))
      in ema_assign self sync_encodings sync_dw)"

text \<open>Line 238: \<open>encode_feat + (part_token_feat - encode_feat).detach()\<close>.\<close>

definition straight_through :: "mat \<Rightarrow> mat \<Rightarrow> mat" where
  "straight_through encode_feat part_token_feat =
     map2 (map2 (\<lambda>e q. e + (q - e))) encode_feat part_token_feat"

subsection \<open>The decoder, lines 243-256\<close>

definition decode :: "pct \<Rightarrow> nat \<Rightarrow> mat \<Rightarrow> error + (tensor3 \<times> tensor3)" where
  "decode self bs part_token_feat =
     (case view3 bs part_token_feat of
        Inl e \<Rightarrow> Inl e
      | Inr part \<Rightarrow>
          (let out_part_token_feat = part;
               p1 = map (\<lambda>m. transpose (map (linear_apply (decoder_token_mlp self)) (transpose m))) part;
               d0 = map (map (linear_apply (decoder_start self))) p1;
               d1 = fold (\<lambda>layer t. layer t) (decoder self) d0;
               d2 = map (map (layer_norm_apply (decoder_layer_norm self))) d1;
               recoverd_joints = map (map (linear_apply (recover_embed self))) d2
           in Inr (recoverd_joints, out_part_token_feat)))"

subsection \<open>\<open>forward\<close>, lines 163-258\<close>

text \<open>
  The result is the module after the call, with either the exception raised or the tuple
  \<open>(recoverd_joints, encoding_indices, e_latent_loss, out_part_token_feat)\<close>.
  An exception raised after the buffers were reassigned leaves them reassigned.
\<close>

type_synonym outputs = "tensor3 \<times> nat list option \<times> real option \<times> tensor3"

definition forward ::
  "pct \<Rightarrow> tensor3 \<Rightarrow> tensor3 \<Rightarrow> mat \<Rightarrow> bool \<Rightarrow> (nat \<Rightarrow> nat \<Rightarrow> real) \<Rightarrow> vec list
     \<Rightarrow> pct \<times> (error + outputs)" where
  "forward self joints joints_feature cls_logits train rnd peers =
     (if train \<or> stage_pct self = ''tokenizer'' then
        (let bs = length joints;
             encode_feat = encode self (masked_features self joints joints_feature train rnd);
             encoding_indices = nearest encode_feat (codebook self);
             encodings = map (one_hot (token_class_num self)) encoding_indices;
             part_token_feat =
               (if stage_pct self = ''classifier'' then matmul cls_logits (codebook self)
                else matmul encodings (codebook self))
         in if train \<and> stage_pct self = ''tokenizer'' then
              (let self' = ema_update self encodings encode_feat peers;
                   e_latent_loss = mse_loss part_token_feat encode_feat;
                   part_token_feat' = straight_through encode_feat part_token_feat
               in (self',
                   case decode self' bs part_token_feat' of
                     Inl e \<Rightarrow> Inl e
                   | Inr (recoverd_joints, out_part_token_feat) \<Rightarrow>
                       Inr (recoverd_joints, Some encoding_indices, Some e_latent_loss,
                            out_part_token_feat)))
            else
              (self,
               case decode self bs part_token_feat of
                 Inl e \<Rightarrow> Inl e
               | Inr (recoverd_joints, out_part_token_feat) \<Rightarrow>
                   Inr (recoverd_joints, Some encoding_indices, None, out_part_token_feat)))
      else if token_num self = 0 then (self, Inl ZeroDivisionError)
      else
        (let bs = length cls_logits div token_num self
         in if stage_pct self = ''classifier'' then
              (self,
               case decode self bs (matmul cls_logits (codebook self)) of
                 Inl e \<Rightarrow> Inl e
               | Inr (recoverd_joints, out_part_token_feat) \<Rightarrow>
                   Inr (recoverd_joints, None, None, out_part_token_feat))
            else (self, Inl UnboundLocalError)))"

subsection \<open>\<open>init_weights\<close>, lines 260-293\<close>

text \<open>
  What \<open>init_weights\<close> takes from outside the module: \<open>os.path.isfile\<close>, \<open>torch.load\<close>
  (which may raise), the names \<open>named_parameters\<close> and \<open>named_buffers\<close> yield, and
  \<open>load_state_dict\<close> with \<open>strict=True\<close> (which may raise). A state dict is an association
  list in insertion order; \<open>'v\<close> is the type of the stored tensors.
\<close>

record 'v torch_env =
  isfile :: "string \<Rightarrow> bool"
  torch_load :: "string \<Rightarrow> error + (string \<times> (string \<times> 'v) list) list"
  named_parameters :: "string list"
  named_buffers :: "string list"
  load_state_dict :: "pct \<Rightarrow> (string \<times> 'v) list \<Rightarrow> error + pct"

text \<open>\<open>s.replace(old, '')\<close>: the occurrences of \<open>old\<close> are removed from left to right.\<close>

function str_remove :: "string \<Rightarrow> string \<Rightarrow> string" where
  "str_remove old [] = []"
| "str_remove old (c # cs) =
     (if old \<noteq> [] \<and> prefix old (c # cs) then str_remove old (drop (length old) (c # cs))
      else c # str_remove old cs)"
  by pat_completeness auto
termination
  by (relation "measure (\<lambda>(old, s). length s)") auto

text \<open>Lines 283-287: the loop over the items of the checkpoint.\<close>

fun need_init :: "string list \<Rightarrow> string list \<Rightarrow> (string \<times> 'v) list \<Rightarrow> (string \<times> 'v) list
    \<Rightarrow> (string \<times> 'v) list" where
  "need_init parameters_names buffers_names [] need = need"
| "need_init parameters_names buffers_names ((name, m) # items) need =
     (let name' = (if sublist ''keypoint_head.tokenizer.'' name
                   then str_remove ''keypoint_head.tokenizer.'' name else name)
      in need_init parameters_names buffers_names items
           (if name' \<in> set parameters_names \<or> name' \<in> set buffers_names
            then AList.update name' m need else need))"

text \<open>
  The result is the exception raised, or the module after the call with the lines printed.
\<close>

definition init_weights :: "'v torch_env \<Rightarrow> pct \<Rightarrow> string \<Rightarrow> error + (pct \<times> string list)" where
  "init_weights env self pretrained =
     (if isfile env pretrained then
        (if stage_pct self \<noteq> ''classifier''
         then Inl (AssertionError ''Training tokenizer does not need to load model'')
         else case torch_load env pretrained of
                Inl e \<Rightarrow> Inl e
              | Inr pretrained_state_dict \<Rightarrow>
                  (let key = (if ''state_dict'' \<in> fst ` set pretrained_state_dict
                              then ''state_dict'' else ''model'')
                   in case map_of pretrained_state_dict key of
                        None \<Rightarrow> Inl (KeyError key)
                      | Some items \<Rightarrow>
                          (case load_state_dict env self
                                  (need_init (named_parameters env) (named_buffers env) items [])
                           of Inl e \<Rightarrow> Inl e
                            | Inr self' \<Rightarrow> Inr (self', []))))
      else if stage_pct self = ''classifier''
      then Inr (self, [''If you are training a classifier, must check that the well-trained tokenizer is located in the correct path.''])
      else Inr (self, []))"

subsection \<open>Binary32 arithmetic\<close>

text \<open>
  A value of a float32 tensor: a finite real, an infinity or NaN. The sign of a zero is not
  represented. Every operation computes the exact result and rounds it.
\<close>

datatype f32 = Finite real | PInf | NInf | NaN

text \<open>Rounding to the nearest integer, ties to even.\<close>

definition round_even :: "real \<Rightarrow> int" where
  "round_even y =
     (let f = \<lfloor>y\<rfloor>; r = y - of_int f
      in if r < 1 / 2 then f else if 1 / 2 < r then f + 1 else if even f then f else f + 1)"

text \<open>
  The binary exponent of a positive real, \<open>2 ^ e \<le> a < 2 ^ (e + 1)\<close>, found in at most \<open>n\<close>
  doublings or halvings.
\<close>

fun expo :: "nat \<Rightarrow> real \<Rightarrow> int" where
  "expo 0 a = 0"
| "expo (Suc n) a =
     (if a < 1 then expo n (a * 2) - 1 else if 2 \<le> a then expo n (a / 2) + 1 else 0)"

text \<open>
  Rounding to binary32, to nearest with ties to even: 24 significant bits, the exponent not
  below \<open>-126\<close> (so that the subnormal numbers are the multiples of \<open>2 ^ -149\<close>), and an
  infinity when the rounded value reaches \<open>2 ^ 128\<close>.
\<close>

definition round32 :: "real \<Rightarrow> f32" where
  "round32 x =
     (if 2 ^ 128 \<le> \<bar>x\<bar> then (if 0 < x then PInf else NInf)
      else
        (let e = (if \<bar>x\<bar> < 2 powi (- 126) then - 126 else expo 128 \<bar>x\<bar>);
             q = 2 powi (e - 23);
             r = q * of_int (round_even (x / q))
         in if 2 ^ 128 \<le> \<bar>r\<bar> then (if 0 < x then PInf else NInf) else Finite r))"

text \<open>The reals that are binary32 values.\<close>

definition is_f32 :: "real \<Rightarrow> bool" where
  "is_f32 x = (round32 x = Finite x)"

fun is_finite :: "f32 \<Rightarrow> bool" where
  "is_finite (Finite a) = True"
| "is_finite x = False"

fun neg32 :: "f32 \<Rightarrow> f32" where
  "neg32 (Finite a) = Finite (- a)"
| "neg32 PInf = NInf"
| "neg32 NInf = PInf"
| "neg32 NaN = NaN"

fun add32 :: "f32 \<Rightarrow> f32 \<Rightarrow> f32" where
  "add32 NaN y = NaN"
| "add32 x NaN = NaN"
| "add32 (Finite a) (Finite b) = round32 (a + b)"
| "add32 PInf NInf = NaN"
| "add32 NInf PInf = NaN"
| "add32 PInf y = PInf"
| "add32 NInf y = NInf"
| "add32 (Finite a) y = y"

definition sub32 :: "f32 \<Rightarrow> f32 \<Rightarrow> f32" where
  "sub32 x y = add32 x (neg32 y)"

fun mul32 :: "f32 \<Rightarrow> f32 \<Rightarrow> f32" where
  "mul32 NaN y = NaN"
| "mul32 x NaN = NaN"
| "mul32 (Finite a) (Finite b) = round32 (a * b)"
| "mul32 (Finite a) PInf = (if a = 0 then NaN else if 0 < a then PInf else NInf)"
| "mul32 (Finite a) NInf = (if a = 0 then NaN else if 0 < a then NInf else PInf)"
| "mul32 PInf (Finite b) = (if b = 0 then NaN else if 0 < b then PInf else NInf)"
| "mul32 NInf (Finite b) = (if b = 0 then NaN else if 0 < b then NInf else PInf)"
| "mul32 PInf PInf = PInf"
| "mul32 PInf NInf = NInf"
| "mul32 NInf PInf = NInf"
| "mul32 NInf NInf = PInf"



text \<open>
  \<open>torch.sum\<close> along a row and the inner product of \<open>torch.matmul\<close>. Torch does not fix the
  order in which the terms are accumulated; here it is from left to right. A row of one entry
  has one order only.
\<close>

definition sum32 :: "f32 list \<Rightarrow> f32" where
  "sum32 xs = foldl add32 (Finite 0) xs"

definition dot32 :: "f32 list \<Rightarrow> f32 list \<Rightarrow> f32" where
  "dot32 xs ys = sum32 (map2 mul32 xs ys)"

subsection \<open>Lines 195-199, 238 and 170-185 in binary32\<close>



text \<open>Line 238: \<open>encode_feat + (part_token_feat - encode_feat).detach()\<close>.\<close>

definition straight_through32 :: "f32 list list \<Rightarrow> f32 list list \<Rightarrow> f32 list list" where
  "straight_through32 encode_feat part_token_feat =
     map2 (map2 (\<lambda>e q. add32 e (sub32 q e))) encode_feat part_token_feat"

text \<open>
  Lines 170-185. The attributes these lines read; \<open>drop_rate32\<close> is the rate as the
  comparison with the draw uses it.
\<close>

record linear32 =
  weight32 :: "f32 list list"
  bias32 :: "f32 list"

definition linear_apply32 :: "linear32 \<Rightarrow> f32 list \<Rightarrow> f32 list" where
  "linear_apply32 l x = map2 (\<lambda>row b. add32 (dot32 row x) b) (weight32 l) (bias32 l)"

record encoder32 =
  stage_pct32 :: string
  guide_ratio32 :: real
  drop_rate32 :: real
  invisible_token32 :: "f32 list"
  start_img_embed32 :: linear32
  start_embed32 :: linear32

definition joints_visible32 ::
  "encoder32 \<Rightarrow> f32 list list list \<Rightarrow> bool \<Rightarrow> (nat \<Rightarrow> nat \<Rightarrow> real) \<Rightarrow> bool list list" where
  "joints_visible32 self joints train rnd =
     (let visible = map (map (\<lambda>p. last p \<noteq> Finite 0)) joints
      in if train \<and> stage_pct32 self = ''tokenizer''
         then map2 (\<lambda>b row. map2 (\<lambda>j v. rnd b j > drop_rate32 self \<and> v) [0..<length row] row)
                [0..<length visible] visible
         else visible)"

definition start_features32 ::
  "encoder32 \<Rightarrow> f32 list list list \<Rightarrow> f32 list list list \<Rightarrow> f32 list list list" where
  "start_features32 self joints joints_feature =
     (let encode_feat = map (map (\<lambda>p. linear_apply32 (start_embed32 self) (butlast p))) joints
      in if guide_ratio32 self > 0
         then map2 (map2 (@)) encode_feat
                (map (map (linear_apply32 (start_img_embed32 self))) joints_feature)
         else encode_feat)"

text \<open>Line 185: \<open>encode_feat * w + mask_tokens * (1 - w)\<close> for one joint.\<close>

definition blend32 :: "f32 list \<Rightarrow> f32 list \<Rightarrow> bool \<Rightarrow> f32 list" where
  "blend32 mask_token e v =
     (let w = Finite (if v then 1 else 0)
      in map2 (\<lambda>x m. add32 (mul32 x w) (mul32 m (sub32 (Finite 1) w))) e mask_token)"

definition masked_features32 ::
  "encoder32 \<Rightarrow> f32 list list list \<Rightarrow> f32 list list list \<Rightarrow> bool \<Rightarrow> (nat \<Rightarrow> nat \<Rightarrow> real)
     \<Rightarrow> f32 list list list" where
  "masked_features32 self joints joints_feature train rnd =
     map2 (map2 (blend32 (invisible_token32 self)))
       (start_features32 self joints joints_feature)
       (joints_visible32 self joints train rnd)"

subsection \<open>A small module\<close>

text \<open>
  One joint, one token slot, two codebook entries, all widths one, no mixer blocks; the buffer
  \<open>ema_cluster_size\<close> holds the zeros the constructor registers.
\<close>

definition unit_linear :: linear where
  "unit_linear = \<lparr>weight = [[1]], bias = [0]\<rparr>"

definition unit_norm :: layer_norm where
  "unit_norm = \<lparr>ln_weight = [1], ln_bias = [1], ln_eps = 1 / 100000\<rparr>"

definition small_module :: "string \<Rightarrow> pct" where
  "small_module stage =
     \<lparr>stage_pct = stage, guide_ratio = 0, drop_rate = 0,
      token_num = 1, token_class_num = 2, token_dim = 1, decay = 1 / 2,
      invisible_token = [0],
      start_img_embed = \<lparr>weight = [], bias = []\<rparr>,
      start_embed = \<lparr>weight = [[1, 1]], bias = [0]\<rparr>,
      encoder = [], encoder_layer_norm = unit_norm,
      token_mlp = unit_linear, feature_embed = unit_linear,
      codebook = [[0], [1]], ema_cluster_size = [0, 0], ema_w = [[0], [1]],
      decoder_token_mlp = unit_linear, decoder_start = unit_linear,
      decoder = [], decoder_layer_norm = unit_norm,
      recover_embed = \<lparr>weight = [[1], [1]], bias = [0, 0]\<rparr>\<rparr>"

text \<open>A random draw that is one everywhere, so that no joint is dropped.\<close>

definition draw_one :: "nat \<Rightarrow> nat \<Rightarrow> real" where
  "draw_one b j = 1"

text \<open>
  The masked blend of a module in binary32: one embedding output that adds the two
  coordinates, and a mask token of \<open>1/64\<close>.
\<close>

definition small_encoder32 :: encoder32 where
  "small_encoder32 =
     \<lparr>stage_pct32 = ''tokenizer'', guide_ratio32 = 0, drop_rate32 = 0,
      invisible_token32 = [Finite (1 / 64)],
      start_img_embed32 = \<lparr>weight32 = [], bias32 = []\<rparr>,
      start_embed32 = \<lparr>weight32 = [[Finite 1, Finite 1]], bias32 = [Finite 0]\<rparr>\<rparr>"

text \<open>A file system without files, and a module whose state dict is never replaced.\<close>

definition no_files :: "unit torch_env" where
  "no_files =
     \<lparr>isfile = (\<lambda>p. False), torch_load = (\<lambda>p. Inl RuntimeError),
      named_parameters = [], named_buffers = [],
      load_state_dict = (\<lambda>self d. Inr self)\<rparr>"

text \<open>A file system where every path is a file holding an empty state dict.\<close>

definition every_file :: "unit torch_env" where
  "every_file =
     \<lparr>isfile = (\<lambda>p. True), torch_load = (\<lambda>p. Inr [(''state_dict'', [])]),
      named_parameters = [], named_buffers = [],
      load_state_dict = (\<lambda>self d. Inr self)\<rparr>"

section \<open>Properties\<close>

text \<open>The unfolding that evaluates \<open>forward\<close> on a concrete module.\<close>

lemmas small_eval = forward_def masked_features_def start_features_def joints_visible_def
  blend_def encode_def nearest_def distances_def one_hot_def matmul_def dot_def linear_apply_def
  layer_norm_apply_def decode_def view3_def small_module_def unit_linear_def unit_norm_def
  Let_def ema_update_def ema_assign_def cluster_size_update_def laplace_smooth_def
  all_reduce_def view2_def shape2_def straight_through_def mse_loss_def draw_one_def upt_rec

text \<open>The unfolding that evaluates binary32 arithmetic on concrete values.\<close>

lemma expo_numeral:
  "expo (numeral k) a =
     (if a < 1 then expo (pred_numeral k) (a * 2) - 1
      else if 2 \<le> a then expo (pred_numeral k) (a / 2) + 1 else 0)"
  by (simp add: numeral_eq_Suc)

lemmas f32_eval = round32_def expo_numeral round_even_def Let_def is_f32_def sub32_def

lemmas enc32_eval = masked_features32_def start_features32_def joints_visible32_def blend32_def
  linear_apply32_def dot32_def sum32_def small_encoder32_def draw_one_def upt_rec

subsection \<open>The stage and mode dispatch of \<open>forward\<close>\<close>

text \<open>
  Claim C1. Whenever \<open>forward\<close> returns, the quantization loss (third output) is not \<open>None\<close>
  if and only if \<open>train\<close> holds and the stage is \<open>tokenizer\<close>; in every other combination of
  \<open>train\<close> and stage the returned loss is \<open>None\<close>.
\<close>

theorem forward_loss_iff:
  "snd (forward self joints joints_feature cls_logits train rnd peers)
     = Inr (recoverd_joints, encoding_indices, e_latent_loss, out_part_token_feat)
   \<Longrightarrow> (e_latent_loss \<noteq> None) = (train \<and> stage_pct self = ''tokenizer'')"
  by (auto simp: forward_def Let_def split: if_splits sum.splits prod.splits)

theorem forward_loss_iff_witness:
  "snd (forward (small_module ''tokenizer'') [[[0, 0, 1]]] [] [] True draw_one [])
     = Inr ([[[1, 1]]], Some [1], Some 0, [[[1]]])
   \<and> ((Some (0::real) \<noteq> None) = (True \<and> stage_pct (small_module ''tokenizer'') = ''tokenizer''))"
proof -
  have h: "snd (forward (small_module ''tokenizer'') [[[0, 0, 1]]] [] [] True draw_one [])
     = Inr ([[[1, 1]]], Some [1], Some 0, [[[1]]])"
    by (simp add: small_eval)
  show ?thesis using h forward_loss_iff [OF h] by simp
qed




text \<open>
  Claim C3. A call of \<open>forward\<close> leaves the module, and so the buffers \<open>codebook\<close>,
  \<open>ema_cluster_size\<close> and \<open>ema_w\<close>, as it was unless \<open>train\<close> holds and the stage is
  \<open>tokenizer\<close>; in particular a call in stage \<open>classifier\<close> changes none of the three buffers,
  whatever \<open>train\<close> is, and whether the call returns or raises.
\<close>

theorem forward_frame:
  "(\<not> (train \<and> stage_pct self = ''tokenizer'') \<longrightarrow>
      fst (forward self joints joints_feature cls_logits train rnd peers) = self) \<and>
   (stage_pct self = ''classifier'' \<longrightarrow>
      codebook (fst (forward self joints joints_feature cls_logits train rnd peers))
        = codebook self \<and>
      ema_cluster_size (fst (forward self joints joints_feature cls_logits train rnd peers))
        = ema_cluster_size self \<and>
      ema_w (fst (forward self joints joints_feature cls_logits train rnd peers)) = ema_w self)"
  by (auto simp: forward_def Let_def)

theorem forward_frame_witness:
  "\<not> (True \<and> stage_pct (small_module ''classifier'') = ''tokenizer'') \<and>
   stage_pct (small_module ''classifier'') = ''classifier'' \<and>
   fst (forward (small_module ''classifier'') [[[0, 0, 1]]] [] [[0, 1]] True draw_one [])
     = small_module ''classifier'' \<and>
   codebook (fst (forward (small_module ''classifier'') [[[0, 0, 1]]] [] [[0, 1]] True draw_one []))
     = codebook (small_module ''classifier'')"
proof -
  have s: "stage_pct (small_module ''classifier'') = ''classifier''"
    by (simp add: small_module_def)
  show ?thesis
    using s forward_frame [of True "small_module ''classifier''" "[[[0, 0, 1]]]" "[]" "[[0, 1]]"
        draw_one "[]"]
    by simp
qed

subsection \<open>The moving average\<close>

lemma codebook_assign:
  "codebook (ema_assign self se sd) =
     map2 (\<lambda>row s. map (\<lambda>x. x / s) row) (ema_w (ema_assign self se sd))
       (ema_cluster_size (ema_assign self se sd))"
  by (simp add: ema_assign_def Let_def)

text \<open>
  Claim C4. After the update that \<open>forward\<close> performs when \<open>train\<close> holds and the stage is
  \<open>tokenizer\<close>, the module satisfies \<open>codebook[c] = ema_w[c] / ema_cluster_size[c]\<close> for every
  class \<open>c\<close>, element-wise over the embedding dimension.
\<close>

theorem codebook_after_update:
  assumes "train" and "stage_pct self = ''tokenizer''"
    and "self' = fst (forward self joints joints_feature cls_logits train rnd peers)"
  shows "codebook self'
           = map2 (\<lambda>row s. map (\<lambda>x. x / s) row) (ema_w self') (ema_cluster_size self')
    \<and> (\<forall>c d. c < length (ema_w self') \<and> c < length (ema_cluster_size self')
          \<and> d < length (ema_w self' ! c)
        \<longrightarrow> codebook self' ! c ! d = ema_w self' ! c ! d / ema_cluster_size self' ! c)"
proof -
  have eq: "codebook self'
      = map2 (\<lambda>row s. map (\<lambda>x. x / s) row) (ema_w self') (ema_cluster_size self')"
    using assms by (simp add: forward_def Let_def ema_update_def codebook_assign)
  show ?thesis
  proof (intro conjI allI impI)
    show "codebook self'
        = map2 (\<lambda>row s. map (\<lambda>x. x / s) row) (ema_w self') (ema_cluster_size self')"
      by (rule eq)
  next
    fix c d
    assume "c < length (ema_w self') \<and> c < length (ema_cluster_size self')
      \<and> d < length (ema_w self' ! c)"
    then show "codebook self' ! c ! d = ema_w self' ! c ! d / ema_cluster_size self' ! c"
      by (subst eq) simp
  qed
qed

theorem codebook_after_update_witness:
  "stage_pct (small_module ''tokenizer'') = ''tokenizer'' \<and>
   (small_module ''tokenizer'')
     \<lparr>ema_cluster_size := [1 / 100004, 50001 / 100004], ema_w := [[0], [1]],
      codebook := [[0], [100004 / 50001]]\<rparr>
     = fst (forward (small_module ''tokenizer'') [[[0, 0, 1]]] [] [] True draw_one []) \<and>
   [[0], [100004 / 50001]]
     = map2 (\<lambda>row s. map (\<lambda>x. x / s) row) [[0], [1::real]] [1 / 100004, 50001 / 100004]"
proof -
  have s: "stage_pct (small_module ''tokenizer'') = ''tokenizer''"
    by (simp add: small_module_def)
  have h: "(small_module ''tokenizer'')
     \<lparr>ema_cluster_size := [1 / 100004, 50001 / 100004], ema_w := [[0], [1]],
      codebook := [[0], [100004 / 50001]]\<rparr>
     = fst (forward (small_module ''tokenizer'') [[[0, 0, 1]]] [] [] True draw_one [])"
    by (simp add: small_eval)
  show ?thesis using s h codebook_after_update [OF TrueI s h] by simp
qed




subsection \<open>Rounding in binary32\<close>

lemma round_even_error: "\<bar>of_int (round_even y) - y\<bar> \<le> 1 / 2"
proof -
  have "of_int \<lfloor>y\<rfloor> \<le> y" and "y < of_int \<lfloor>y\<rfloor> + 1" by linarith+
  then show ?thesis by (auto simp: round_even_def Let_def)
qed

lemma p2_succ: "(2::real) powi (k + 1) = 2 * 2 powi k"
  by (simp add: power_int_add)

lemma p2_pred: "(2::real) powi (k - 1) = 2 powi k / 2"
  by (simp add: power_int_diff)

lemma expo_bounds:
  "2 powi (- int n) \<le> a \<Longrightarrow> a < 2 powi (int n + 1)
   \<Longrightarrow> 2 powi (expo n a) \<le> a \<and> a < 2 powi (expo n a + 1)"
proof (induction n arbitrary: a)
  case 0
  then show ?case by simp
next
  case (Suc n)
  have e1: "- int (Suc n) = - int n - 1" and e2: "int (Suc n) + 1 = (int n + 1) + 1"
    by simp_all
  have "2 powi (- int n) / 2 = (2::real) powi (- int (Suc n))"
    unfolding e1 by (rule p2_pred [symmetric])
  also have "\<dots> \<le> a" by (rule Suc.prems(1))
  finally have lo: "2 powi (- int n) / 2 \<le> a" .
  have "a < 2 powi (int (Suc n) + 1)" by (rule Suc.prems(2))
  also have "\<dots> = 2 * 2 powi (int n + 1)" unfolding e2 by (rule p2_succ)
  finally have hi: "a < 2 * 2 powi (int n + 1)" .
  show ?case
  proof (cases "a < 1")
    case True
    have l: "2 powi (- int n) \<le> a * 2" using lo by simp
    have u: "a * 2 < 2 powi (int n + 1)"
    proof -
      have "a * 2 < 2" using True by simp
      also have "(2::real) = 2 powi 1" by simp
      also have "\<dots> \<le> 2 powi (int n + 1)" by (intro power_int_increasing) simp_all
      finally show ?thesis .
    qed
    from Suc.IH [OF l u] show ?thesis
      using True p2_pred [of "expo n (a * 2)"] p2_succ [of "expo n (a * 2)"] by simp
  next
    case False
    show ?thesis
    proof (cases "2 \<le> a")
      case True
      have l: "2 powi (- int n) \<le> a / 2"
      proof -
        have "2 powi (- int n) \<le> (2::real) powi 0" by (intro power_int_increasing) simp_all
        also have "\<dots> \<le> a / 2" using True by simp
        finally show ?thesis .
      qed
      have u: "a / 2 < 2 powi (int n + 1)" using hi by simp
      from Suc.IH [OF l u] show ?thesis
        using True False p2_succ [of "expo n (a / 2)"] p2_succ [of "expo n (a / 2) + 1"]
        by simp
    next
      case F2: False
      with False show ?thesis by simp
    qed
  qed
qed

lemma round32_error:
  assumes "round32 x = Finite r"
  shows "\<bar>r - x\<bar> \<le> \<bar>x\<bar> / 2 ^ 24 + 1 / 2 ^ 150"
proof -
  define e where "e = (if \<bar>x\<bar> < 2 powi (- 126) then - 126 else expo 128 \<bar>x\<bar>)"
  define q :: real where "q = 2 powi (e - 23)"
  have small: "\<bar>x\<bar> < 2 ^ 128" and r: "r = q * of_int (round_even (x / q))"
    using assms by (auto simp: round32_def Let_def e_def q_def split: if_splits)
  have qpos: "0 < q" by (simp add: q_def)
  have "r - x = q * (of_int (round_even (x / q)) - x / q)"
    using qpos by (simp add: r algebra_simps)
  then have "\<bar>r - x\<bar> = q * \<bar>of_int (round_even (x / q)) - x / q\<bar>"
    using qpos by (simp add: abs_mult)
  also have "\<dots> \<le> q * (1 / 2)"
    using qpos round_even_error [of "x / q"] by (intro mult_left_mono) simp_all
  finally have half: "\<bar>r - x\<bar> \<le> q / 2" by simp
  have "q / 2 \<le> \<bar>x\<bar> / 2 ^ 24 + 1 / 2 ^ 150"
  proof (cases "\<bar>x\<bar> < 2 powi (- 126)")
    case True
    then have "q = 2 powi (- 149)" by (simp add: q_def e_def)
    then have "q / 2 = 1 / 2 ^ 150" by simp
    then show ?thesis by simp
  next
    case False
    then have e: "e = expo 128 \<bar>x\<bar>" by (simp add: e_def)
    have "(2::real) powi (- int 128) \<le> 2 powi (- 126)" by (intro power_int_increasing) simp_all
    with False have l: "2 powi (- int 128) \<le> \<bar>x\<bar>" by simp
    have "(2::real) ^ 128 \<le> 2 powi (int 128 + 1)" by simp
    with small have u: "\<bar>x\<bar> < 2 powi (int 128 + 1)" by simp
    from expo_bounds [OF l u] have le: "2 powi e \<le> \<bar>x\<bar>" by (simp add: e)
    have "q = 2 powi e / 2 ^ 23" by (simp add: q_def power_int_diff)
    then have "q / 2 = 2 powi e / 2 ^ 24" by simp
    also have "\<dots> \<le> \<bar>x\<bar> / 2 ^ 24" using le by (simp add: divide_right_mono)
    finally show ?thesis by simp
  qed
  with half show ?thesis by simp
qed

subsection \<open>The straight-through value\<close>

text \<open>
  Claim C7, as stated: for arbitrary tensors \<open>continuous\<close> and \<open>quantized\<close> of equal shape
  the value \<open>continuous + (quantized - continuous).detach()\<close> is element-wise equal to
  \<open>quantized\<close>. In binary32 the difference \<open>1 - 1e8\<close> rounds to \<open>-1e8\<close>, and the value at
  \<open>continuous = 1e8\<close>, \<open>quantized = 1\<close> is \<open>0\<close>.
\<close>

theorem straight_through32_counterexample:
  "is_f32 100000000 \<and> is_f32 1 \<and>
   straight_through32 [[Finite 100000000]] [[Finite 1]] = [[Finite 0]] \<and>
   straight_through32 [[Finite 100000000]] [[Finite 1]] \<noteq> [[Finite 1]]"
  by (simp add: straight_through32_def f32_eval)

lemma sub32_Finite: "sub32 (Finite b) (Finite a) = round32 (b - a)"
  by (simp add: sub32_def)

lemma add32_Finite_result:
  "add32 (Finite a) y = Finite r \<Longrightarrow> \<exists>d. y = Finite d \<and> round32 (a + d) = Finite r"
  by (cases y) simp_all

lemma straight_exact:
  assumes "is_f32 b" and "is_f32 (b - a)"
  shows "add32 (Finite a) (sub32 (Finite b) (Finite a)) = Finite b"
  using assms by (simp add: sub32_Finite is_f32_def)

lemma straight_bound:
  assumes "add32 (Finite a) (sub32 (Finite b) (Finite a)) = Finite r"
  shows "\<bar>r - b\<bar> \<le> \<bar>b\<bar> / 2 ^ 24 + (1 / 2 ^ 24 + 1 / 2 ^ 48) * \<bar>b - a\<bar> + 3 / 2 ^ 150"
proof -
  from add32_Finite_result [OF assms] obtain d
    where d: "sub32 (Finite b) (Finite a) = Finite d" and r: "round32 (a + d) = Finite r"
    by blast
  from d have "round32 (b - a) = Finite d" by (simp add: sub32_Finite)
  from round32_error [OF this] have ed: "\<bar>d - (b - a)\<bar> \<le> \<bar>b - a\<bar> / 2 ^ 24 + 1 / 2 ^ 150" .
  from round32_error [OF r] have er: "\<bar>r - (a + d)\<bar> \<le> \<bar>a + d\<bar> / 2 ^ 24 + 1 / 2 ^ 150" .
  have "\<bar>a + d\<bar> \<le> \<bar>b\<bar> + \<bar>d - (b - a)\<bar>" by linarith
  with ed have ad: "\<bar>a + d\<bar> \<le> \<bar>b\<bar> + \<bar>b - a\<bar> / 2 ^ 24 + 1 / 2 ^ 150" by linarith
  have "\<bar>a + d\<bar> / 2 ^ 24 \<le> (\<bar>b\<bar> + \<bar>b - a\<bar> / 2 ^ 24 + 1 / 2 ^ 150) / 2 ^ 24"
    using ad by (simp add: divide_right_mono)
  also have "\<dots> \<le> \<bar>b\<bar> / 2 ^ 24 + \<bar>b - a\<bar> / 2 ^ 48 + 1 / 2 ^ 150"
    by (simp add: add_divide_distrib)
  finally have "\<bar>r - (a + d)\<bar> \<le> \<bar>b\<bar> / 2 ^ 24 + \<bar>b - a\<bar> / 2 ^ 48 + 2 / 2 ^ 150"
    using er by linarith
  moreover have "\<bar>r - b\<bar> \<le> \<bar>r - (a + d)\<bar> + \<bar>d - (b - a)\<bar>" by linarith
  ultimately have "\<bar>r - b\<bar> \<le> \<bar>b\<bar> / 2 ^ 24 + \<bar>b - a\<bar> / 2 ^ 48 + \<bar>b - a\<bar> / 2 ^ 24 + 3 / 2 ^ 150"
    using ed by linarith
  then show ?thesis by (simp add: algebra_simps)
qed

text \<open>
  Claim C7, amended. For binary32 tensors \<open>continuous\<close> and \<open>quantized\<close> of equal shape and
  every position where both are finite: the straight-through value equals \<open>quantized\<close> there
  when \<open>quantized\<close> and \<open>quantized - continuous\<close> are binary32 values; and whenever the value
  is finite it differs from \<open>quantized\<close> by at most
  \<open>2^-24 |quantized| + (2^-24 + 2^-48) |quantized - continuous| + 3 * 2^-150\<close>.
  \<open>detach\<close> does not change the value.
\<close>

theorem straight_through32_value:
  assumes len: "length encode_feat = length part_token_feat"
    and rows: "\<forall>i<length encode_feat. length (encode_feat ! i) = length (part_token_feat ! i)"
    and i: "i < length encode_feat" and j: "j < length (encode_feat ! i)"
    and a: "encode_feat ! i ! j = Finite a" and b: "part_token_feat ! i ! j = Finite b"
  shows "(is_f32 b \<and> is_f32 (b - a)
            \<longrightarrow> straight_through32 encode_feat part_token_feat ! i ! j = part_token_feat ! i ! j)
       \<and> (\<forall>r. straight_through32 encode_feat part_token_feat ! i ! j = Finite r
            \<longrightarrow> \<bar>r - b\<bar> \<le> \<bar>b\<bar> / 2 ^ 24 + (1 / 2 ^ 24 + 1 / 2 ^ 48) * \<bar>b - a\<bar> + 3 / 2 ^ 150)"
proof -
  have "straight_through32 encode_feat part_token_feat ! i ! j
      = add32 (Finite a) (sub32 (Finite b) (Finite a))"
    using len rows i j a b by (simp add: straight_through32_def)
  then show ?thesis using straight_exact [of b a] straight_bound [of a b] b by auto
qed

theorem straight_through32_value_witness:
  "length [[Finite 3]] = length [[Finite 1]] \<and>
   length ([[Finite 3]] ! 0) = length ([[Finite 1]] ! 0) \<and>
   is_f32 1 \<and> is_f32 (1 - 3) \<and>
   straight_through32 [[Finite 3]] [[Finite 1]] ! 0 ! 0 = [[Finite 1]] ! 0 ! 0 \<and>
   straight_through32 [[Finite 100000000]] [[Finite 1]] ! 0 ! 0 = Finite 0 \<and>
   \<bar>0 - 1\<bar> \<le> \<bar>1\<bar> / 2 ^ 24 + (1 / 2 ^ 24 + 1 / 2 ^ 48) * \<bar>1 - 100000000\<bar> + 3 / (2 ^ 150 :: real)"
proof -
  have len: "length [[Finite 3]] = length [[Finite 1]]"
    and len': "length [[Finite 100000000]] = length [[Finite 1]]" by simp_all
  have rows: "\<forall>i<length [[Finite 3]]. length ([[Finite 3]] ! i) = length ([[Finite 1]] ! i)"
    and rows': "\<forall>i<length [[Finite 100000000]].
        length ([[Finite 100000000]] ! i) = length ([[Finite 1]] ! i)" by simp_all
  have i: "0 < length [[Finite 3]]" and j: "0 < length ([[Finite 3]] ! 0)"
    and i': "0 < length [[Finite 100000000]]" and j': "0 < length ([[Finite 100000000]] ! 0)"
    by simp_all
  have a: "[[Finite 3]] ! 0 ! 0 = Finite 3" and b: "[[Finite 1]] ! 0 ! 0 = Finite 1"
    and a': "[[Finite 100000000]] ! 0 ! 0 = Finite 100000000" by simp_all
  have f: "is_f32 1" "is_f32 (1 - 3)" by (simp_all add: f32_eval)
  have z: "straight_through32 [[Finite 100000000]] [[Finite 1]] ! 0 ! 0 = Finite 0"
    by (simp add: straight_through32_def f32_eval)
  show ?thesis
    using f z straight_through32_value [OF len rows i j a b]
      straight_through32_value [OF len' rows' i' j' a' b]
    by simp
qed

subsection \<open>Loading pretrained weights\<close>

text \<open>
  Claim C9, as stated: every call of \<open>init_weights\<close> in stage \<open>tokenizer\<close> with a pretrained
  path supplied fails with the assertion. The assertion sits under \<open>os.path.isfile(pretrained)\<close>:
  with a path that names no file, the tokenizer-stage call returns normally, loading nothing and
  printing nothing.
\<close>

theorem init_weights_missing_file_counterexample:
  "stage_pct (small_module ''tokenizer'') = ''tokenizer'' \<and>
   init_weights no_files (small_module ''tokenizer'') ''missing.pth''
     = Inr (small_module ''tokenizer'', [])"
  by (simp add: init_weights_def no_files_def small_module_def)

text \<open>
  Claim C9, amended. A call of \<open>init_weights\<close> in stage \<open>tokenizer\<close> with a path that names an
  existing file fails with the assertion; with a path that names no file it returns with the
  module as it was and prints nothing, so a tokenizer-stage module never has weights loaded.
  In stage \<open>classifier\<close> with a path that names no file the call returns with the module as it
  was and prints the warning.
\<close>

theorem init_weights_stage:
  "(stage_pct self = ''tokenizer'' \<and> isfile env pretrained \<longrightarrow>
      init_weights env self pretrained
        = Inl (AssertionError ''Training tokenizer does not need to load model'')) \<and>
   (stage_pct self = ''tokenizer'' \<and> \<not> isfile env pretrained \<longrightarrow>
      init_weights env self pretrained = Inr (self, [])) \<and>
   (stage_pct self = ''classifier'' \<and> \<not> isfile env pretrained \<longrightarrow>
      init_weights env self pretrained
        = Inr (self, [''If you are training a classifier, must check that the well-trained tokenizer is located in the correct path.'']))"
  by (simp add: init_weights_def)

theorem init_weights_stage_witness:
  "stage_pct (small_module ''tokenizer'') = ''tokenizer'' \<and> isfile every_file ''tokenizer.pth'' \<and>
   init_weights every_file (small_module ''tokenizer'') ''tokenizer.pth''
     = Inl (AssertionError ''Training tokenizer does not need to load model'') \<and>
   \<not> isfile no_files [] \<and>
   init_weights no_files (small_module ''tokenizer'') [] = Inr (small_module ''tokenizer'', []) \<and>
   stage_pct (small_module ''classifier'') = ''classifier'' \<and>
   init_weights no_files (small_module ''classifier'') []
     = Inr (small_module ''classifier'', [''If you are training a classifier, must check that the well-trained tokenizer is located in the correct path.''])"
proof -
  have t: "stage_pct (small_module ''tokenizer'') = ''tokenizer''"
    and c: "stage_pct (small_module ''classifier'') = ''classifier''"
    by (simp_all add: small_module_def)
  have f: "isfile every_file ''tokenizer.pth''" by (simp add: every_file_def)
  have n: "\<not> isfile no_files []" by (simp add: no_files_def)
  show ?thesis
    using t c f n
      init_weights_stage [of "small_module ''tokenizer''" every_file "''tokenizer.pth''"]
      init_weights_stage [of "small_module ''tokenizer''" no_files "[]"]
      init_weights_stage [of "small_module ''classifier''" no_files "[]"]
    by simp
qed

subsection \<open>Nearest-neighbour assignment\<close>

lemma argmin_less: "xs \<noteq> [] \<Longrightarrow> argmin xs < length xs"
  by (induction xs rule: argmin.induct) (simp_all add: Let_def)










subsection \<open>Invisible joints\<close>

text \<open>
  \<open>forward\<close> reads \<open>joints\<close> only through the batch size and the masked features of
  line 185.
\<close>

lemma forward_reads_masked_features:
  "length joints = length joints' \<Longrightarrow>
   masked_features self joints joints_feature train rnd
     = masked_features self joints' joints_feature train rnd \<Longrightarrow>
   forward self joints joints_feature cls_logits train rnd peers
     = forward self joints' joints_feature cls_logits train rnd peers"
  by (simp add: forward_def)

text \<open>
  Claim C8, as stated: replacing the coordinates of joints whose visibility flag is \<open>0\<close> by
  arbitrary values does not change the encoder's features. With the coordinates
  \<open>(2^127, 2^127)\<close> at an invisible joint the embedding overflows to infinity, the product with
  the weight \<open>0\<close> is NaN, and the masked feature is NaN; with the coordinates \<open>(0, 0)\<close> it is
  the mask token.
\<close>

theorem masked_features32_counterexample:
  "is_f32 (2 ^ 127) \<and> is_f32 0 \<and>
   masked_features32 small_encoder32 [[[Finite (2 ^ 127), Finite (2 ^ 127), Finite 0]]] []
       False draw_one = [[[NaN]]] \<and>
   masked_features32 small_encoder32 [[[Finite 0, Finite 0, Finite 0]]] []
       False draw_one = [[[Finite (1 / 64)]]]"
  by (simp add: enc32_eval f32_eval)

lemma blend32_invisible:
  assumes "length e = length e'"
    and "\<And>i. i < length e \<Longrightarrow> e ! i = e' ! i \<or> (is_finite (e ! i) \<and> is_finite (e' ! i))"
  shows "blend32 m e False = blend32 m e' False"
proof (rule nth_equalityI)
  show "length (blend32 m e False) = length (blend32 m e' False)"
    using assms(1) by (simp add: blend32_def Let_def)
next
  fix i assume "i < length (blend32 m e False)"
  then have i: "i < length e" "i < length m" "i < length e'"
    using assms(1) by (simp_all add: blend32_def Let_def)
  have "mul32 (e ! i) (Finite 0) = mul32 (e' ! i) (Finite 0)"
    using assms(2) [OF i(1)] by (cases "e ! i"; cases "e' ! i") auto
  then show "blend32 m e False ! i = blend32 m e' False ! i"
    using i by (simp add: blend32_def Let_def)
qed

lemma blend32_pointwise:
  "map2 (map2 (blend32 m)) A V = map2 (map2 (blend32 m)) A' V"
  if len: "length A = length A'"
    and rows: "\<And>b. b < length A \<Longrightarrow> length (A ! b) = length (A' ! b)"
    and pt: "\<And>b j. b < length A \<Longrightarrow> b < length V \<Longrightarrow> j < length (A ! b) \<Longrightarrow>
          j < length (V ! b) \<Longrightarrow>
          blend32 m (A ! b ! j) (V ! b ! j) = blend32 m (A' ! b ! j) (V ! b ! j)"
proof (rule nth_equalityI)
  show "length (map2 (map2 (blend32 m)) A V) = length (map2 (map2 (blend32 m)) A' V)"
    using len by simp
next
  fix b assume "b < length (map2 (map2 (blend32 m)) A V)"
  then have b: "b < length A" "b < length V" "b < length A'" using len by simp_all
  have "map2 (blend32 m) (A ! b) (V ! b) = map2 (blend32 m) (A' ! b) (V ! b)"
  proof (rule nth_equalityI)
    show "length (map2 (blend32 m) (A ! b) (V ! b)) = length (map2 (blend32 m) (A' ! b) (V ! b))"
      using rows [OF b(1)] by simp
  next
    fix j assume "j < length (map2 (blend32 m) (A ! b) (V ! b))"
    then have j: "j < length (A ! b)" "j < length (V ! b)" by simp_all
    with rows [OF b(1)] have "j < length (A' ! b)" by simp
    with j pt [OF b(1) b(2) j]
    show "map2 (blend32 m) (A ! b) (V ! b) ! j = map2 (blend32 m) (A' ! b) (V ! b) ! j"
      by simp
  qed
  with b show "map2 (map2 (blend32 m)) A V ! b = map2 (map2 (blend32 m)) A' V ! b"
    by simp
qed

lemma length_linear_apply32:
  "length (linear_apply32 l x) = min (length (weight32 l)) (length (bias32 l))"
  by (simp add: linear_apply32_def)

text \<open>
  Claim C8, amended. Two calls with the same parameters, the same random draw and the same
  other arguments, whose \<open>joints\<close> have the same shape and the same visibility flags, agree on
  the coordinates of every joint whose flag is not \<open>0\<close>, and for which \<open>start_embed\<close> yields
  finite binary32 values (no infinity, no NaN, no overflow) at every joint whose flag is \<open>0\<close>,
  compute the same masked features in line 185 (as numbers: the sign of a zero is not
  represented), and so the same encoder features and outputs, which are computed from the
  masked features and the batch size.
\<close>

theorem invisible_joints32:
  assumes len: "length joints = length joints'"
    and rows: "\<forall>b<length joints. length (joints ! b) = length (joints' ! b)"
    and agree: "\<forall>b<length joints. \<forall>j<length (joints ! b).
        last (joints ! b ! j) = last (joints' ! b ! j) \<and>
        (last (joints ! b ! j) \<noteq> Finite 0 \<longrightarrow> butlast (joints ! b ! j) = butlast (joints' ! b ! j)) \<and>
        (last (joints ! b ! j) = Finite 0 \<longrightarrow>
           list_all is_finite (linear_apply32 (start_embed32 self) (butlast (joints ! b ! j))) \<and>
           list_all is_finite (linear_apply32 (start_embed32 self) (butlast (joints' ! b ! j))))"
  shows "masked_features32 self joints joints_feature train rnd
       = masked_features32 self joints' joints_feature train rnd"
proof -
  define vis where "vis = map (map (\<lambda>p. last p \<noteq> Finite 0)) joints"
  define vis' where "vis' = map (map (\<lambda>p. last p \<noteq> Finite 0)) joints'"
  define E where "E = map (map (\<lambda>p. linear_apply32 (start_embed32 self) (butlast p))) joints"
  define E' where "E' = map (map (\<lambda>p. linear_apply32 (start_embed32 self) (butlast p))) joints'"
  define G where "G = map (map (linear_apply32 (start_img_embed32 self))) joints_feature"
  define V where "V = joints_visible32 self joints train rnd"
  have vis_eq: "vis = vis'"
    unfolding vis_def vis'_def
  proof (rule nth_equalityI)
    show "length (map (map (\<lambda>p. last p \<noteq> Finite 0)) joints)
        = length (map (map (\<lambda>p. last p \<noteq> Finite 0)) joints')"
      using len by simp
  next
    fix b assume "b < length (map (map (\<lambda>p. last p \<noteq> Finite 0)) joints)"
    then have b: "b < length joints" by simp
    have "map (\<lambda>p. last p \<noteq> Finite 0) (joints ! b) = map (\<lambda>p. last p \<noteq> Finite 0) (joints' ! b)"
      using rows agree b by (intro nth_equalityI) simp_all
    then show "map (map (\<lambda>p. last p \<noteq> Finite 0)) joints ! b
        = map (map (\<lambda>p. last p \<noteq> Finite 0)) joints' ! b"
      using b len by simp
  qed
  have V: "V = (if train \<and> stage_pct32 self = ''tokenizer''
         then map2 (\<lambda>b row. map2 (\<lambda>j v. rnd b j > drop_rate32 self \<and> v) [0..<length row] row)
                [0..<length vis] vis
         else vis)"
    unfolding V_def joints_visible32_def vis_def Let_def by simp
  have V': "joints_visible32 self joints' train rnd = V"
    unfolding V vis_eq unfolding joints_visible32_def vis'_def Let_def by simp
  have V_vis: "vis ! b ! j" if "b < length V" "j < length (V ! b)" "V ! b ! j" for b j
    using that unfolding V by (auto split: if_splits)
  have V_len: "b < length vis" "j < length (vis ! b)" if "b < length V" "j < length (V ! b)" for b j
    using that unfolding V by (auto split: if_splits)
  have E_len: "length E = length E'" using len by (simp add: E_def E'_def)
  have E_rows: "length (E ! b) = length (E' ! b)" if "b < length E" for b
    using that rows len by (simp add: E_def E'_def)
  have E_ent: "length (E ! b ! j) = length (E' ! b ! j)" if "b < length E" "j < length (E ! b)" for b j
    using that rows len by (simp add: E_def E'_def length_linear_apply32)
  have E_vis: "E ! b ! j = E' ! b ! j" if "b < length E" "j < length (E ! b)" "vis ! b ! j" for b j
    using that rows len agree by (simp add: E_def E'_def vis_def)
  have E_fin: "list_all is_finite (E ! b ! j) \<and> list_all is_finite (E' ! b ! j)"
    if "b < length E" "j < length (E ! b)" "\<not> vis ! b ! j" for b j
    using that rows len agree by (simp add: E_def E'_def vis_def)
  have E_or: "E ! b ! j ! i = E' ! b ! j ! i \<or> (is_finite (E ! b ! j ! i) \<and> is_finite (E' ! b ! j ! i))"
    if "b < length E" "j < length (E ! b)" "i < length (E ! b ! j)" for b j i
  proof (cases "vis ! b ! j")
    case True
    then show ?thesis using E_vis [OF that(1) that(2)] by simp
  next
    case False
    from E_fin [OF that(1) that(2) False] that(3) E_ent [OF that(1) that(2)]
    show ?thesis by (simp add: list_all_length)
  qed
  show ?thesis
  proof (cases "guide_ratio32 self > 0")
    case False
    then have sf: "start_features32 self joints joints_feature = E"
      and sf': "start_features32 self joints' joints_feature = E'"
      by (simp_all add: start_features32_def E_def E'_def Let_def)
    have E_blend: "blend32 (invisible_token32 self) (E ! b ! j) (V ! b ! j)
               = blend32 (invisible_token32 self) (E' ! b ! j) (V ! b ! j)"
      if "b < length E" "b < length V" "j < length (E ! b)" "j < length (V ! b)" for b j
    proof (cases "V ! b ! j")
      case True
      then show ?thesis using E_vis [OF that(1) that(3)] V_vis [OF that(2) that(4)] by simp
    next
      case False
      have "blend32 (invisible_token32 self) (E ! b ! j) False
          = blend32 (invisible_token32 self) (E' ! b ! j) False"
        by (rule blend32_invisible [OF E_ent [OF that(1) that(3)] E_or [OF that(1) that(3)]])
      then show ?thesis using False by simp
    qed
    show ?thesis
      unfolding masked_features32_def V' V_def [symmetric] sf sf'
      by (rule blend32_pointwise [OF E_len E_rows E_blend])
  next
    case True
    define S where "S = map2 (map2 (@)) E G"
    define S' where "S' = map2 (map2 (@)) E' G"
    from True have sf: "start_features32 self joints joints_feature = S"
      and sf': "start_features32 self joints' joints_feature = S'"
      by (simp_all add: start_features32_def E_def E'_def G_def S_def S'_def Let_def)
    have S_len: "length S = length S'" using E_len by (simp add: S_def S'_def)
    have S_rows: "length (S ! b) = length (S' ! b)" if "b < length S" for b
      using that E_len E_rows by (simp add: S_def S'_def)
    have S_blend: "blend32 (invisible_token32 self) (S ! b ! j) (V ! b ! j)
               = blend32 (invisible_token32 self) (S' ! b ! j) (V ! b ! j)"
      if "b < length S" "b < length V" "j < length (S ! b)" "j < length (V ! b)" for b j
    proof -
      from that have b: "b < length E" "b < length G" by (simp_all add: S_def)
      with that have j: "j < length (E ! b)" "j < length (G ! b)" by (simp_all add: S_def)
      have Sbj: "S ! b ! j = E ! b ! j @ G ! b ! j" "S' ! b ! j = E' ! b ! j @ G ! b ! j"
        using b j E_len E_rows [OF b(1)] by (simp_all add: S_def S'_def)
      show ?thesis
      proof (cases "V ! b ! j")
        case True
        then show ?thesis using E_vis [OF b(1) j(1)] V_vis [OF that(2) that(4)] Sbj by simp
      next
        case False
        have l: "length (S ! b ! j) = length (S' ! b ! j)"
          using Sbj E_ent [OF b(1) j(1)] by simp
        have o: "S ! b ! j ! i = S' ! b ! j ! i
            \<or> (is_finite (S ! b ! j ! i) \<and> is_finite (S' ! b ! j ! i))"
          if "i < length (S ! b ! j)" for i
        proof (cases "i < length (E ! b ! j)")
          case True
          then show ?thesis
            using E_or [OF b(1) j(1) True] E_ent [OF b(1) j(1)] by (simp add: Sbj nth_append)
        next
          case False
          then show ?thesis using E_ent [OF b(1) j(1)] by (simp add: Sbj nth_append)
        qed
        have "blend32 (invisible_token32 self) (S ! b ! j) False
            = blend32 (invisible_token32 self) (S' ! b ! j) False"
          by (rule blend32_invisible [OF l o])
        then show ?thesis using False by simp
      qed
    qed
    show ?thesis
      unfolding masked_features32_def V' V_def [symmetric] sf sf'
      by (rule blend32_pointwise [OF S_len S_rows S_blend])
  qed
qed

theorem invisible_joints32_witness:
  "length [[[Finite 5, Finite 7, Finite 0]]] = length [[[Finite 0, Finite 0, Finite 0]]] \<and>
   length ([[[Finite 5, Finite 7, Finite 0]]] ! 0) = length ([[[Finite 0, Finite 0, Finite 0]]] ! 0) \<and>
   last ([[[Finite 5, Finite 7, Finite 0]]] ! 0 ! 0) = Finite 0 \<and>
   last ([[[Finite 0, Finite 0, Finite 0]]] ! 0 ! 0) = Finite 0 \<and>
   linear_apply32 (start_embed32 small_encoder32) (butlast ([[[Finite 5, Finite 7, Finite 0]]] ! 0 ! 0))
     = [Finite 12] \<and>
   linear_apply32 (start_embed32 small_encoder32) (butlast ([[[Finite 0, Finite 0, Finite 0]]] ! 0 ! 0))
     = [Finite 0] \<and>
   masked_features32 small_encoder32 [[[Finite 5, Finite 7, Finite 0]]] [] True draw_one
     = masked_features32 small_encoder32 [[[Finite 0, Finite 0, Finite 0]]] [] True draw_one"
proof -
  have len: "length [[[Finite 5, Finite 7, Finite 0]]] = length [[[Finite 0, Finite 0, Finite 0]]]"
    by simp
  have rows: "\<forall>b<length [[[Finite 5, Finite 7, Finite 0]]].
      length ([[[Finite 5, Finite 7, Finite 0]]] ! b) = length ([[[Finite 0, Finite 0, Finite 0]]] ! b)"
    by simp
  have e: "linear_apply32 (start_embed32 small_encoder32)
        (butlast ([[[Finite 5, Finite 7, Finite 0]]] ! 0 ! 0)) = [Finite 12]"
    and e': "linear_apply32 (start_embed32 small_encoder32)
        (butlast ([[[Finite 0, Finite 0, Finite 0]]] ! 0 ! 0)) = [Finite 0]"
    by (simp_all add: enc32_eval f32_eval)
  have agree: "\<forall>b<length [[[Finite 5, Finite 7, Finite 0]]].
      \<forall>j<length ([[[Finite 5, Finite 7, Finite 0]]] ! b).
        last ([[[Finite 5, Finite 7, Finite 0]]] ! b ! j)
          = last ([[[Finite 0, Finite 0, Finite 0]]] ! b ! j) \<and>
        (last ([[[Finite 5, Finite 7, Finite 0]]] ! b ! j) \<noteq> Finite 0 \<longrightarrow>
           butlast ([[[Finite 5, Finite 7, Finite 0]]] ! b ! j)
             = butlast ([[[Finite 0, Finite 0, Finite 0]]] ! b ! j)) \<and>
        (last ([[[Finite 5, Finite 7, Finite 0]]] ! b ! j) = Finite 0 \<longrightarrow>
           list_all is_finite (linear_apply32 (start_embed32 small_encoder32)
              (butlast ([[[Finite 5, Finite 7, Finite 0]]] ! b ! j))) \<and>
           list_all is_finite (linear_apply32 (start_embed32 small_encoder32)
              (butlast ([[[Finite 0, Finite 0, Finite 0]]] ! b ! j))))"
    using e e' by simp
  show ?thesis
    using len e e' invisible_joints32 [OF len rows agree, of "[]" True draw_one]
    by simp
qed

subsection \<open>Positive cluster sizes\<close>

lemma elem_le_sum_list:
  "(\<forall>x\<in>set xs. 0 \<le> x) \<Longrightarrow> y \<in> set xs \<Longrightarrow> y \<le> sum_list (xs::real list)"
proof (induction xs)
  case Nil
  then show ?case by simp
next
  case (Cons a xs)
  then have "0 \<le> sum_list xs" by (simp add: sum_list_nonneg)
  with Cons show ?case by auto
qed

lemma laplace_smooth_pos:
  assumes "\<forall>x\<in>set s. 0 \<le> x" and "0 < sum_list s"
  shows "\<forall>x\<in>set (laplace_smooth k s). 0 < x"
proof -
  have "0 < (x + 1 / 100000) / (sum_list s + real k * (1 / 100000)) * sum_list s"
    if "x \<in> set s" for x
  proof -
    have "0 < x + 1 / 100000" using assms(1) that by (simp add: add_nonneg_pos)
    moreover have "0 < sum_list s + real k * (1 / 100000)"
      using assms(2) by (simp add: add_pos_nonneg)
    ultimately show ?thesis using assms(2) by simp
  qed
  then show ?thesis by (auto simp: laplace_smooth_def Let_def)
qed

lemma cluster_size_update_pos:
  assumes d: "0 < decay self" "decay self < 1"
    and old: "\<forall>x\<in>set (ema_cluster_size self). 0 \<le> x"
    and lold: "length (ema_cluster_size self) = token_class_num self"
    and ne: "sync \<noteq> []"
    and rect: "\<And>r. r < length sync \<Longrightarrow> length (sync ! r) = token_class_num self"
    and nn: "\<And>r c. r < length sync \<Longrightarrow> c < token_class_num self \<Longrightarrow> 0 \<le> sync ! r ! c"
    and hot: "r0 < length sync" "c0 < token_class_num self" "1 \<le> sync ! r0 ! c0"
  shows "\<forall>x\<in>set (cluster_size_update self sync). 0 < x"
proof -
  define K where "K = token_class_num self"
  define cs where "cs = map sum_list (transpose sync)"
  define bl where "bl = map2 (\<lambda>s c. s * decay self + (1 - decay self) * c) (ema_cluster_size self) cs"
  have tr: "transpose sync = map (\<lambda>c. map (\<lambda>r. sync ! r ! c) [0..<length sync]) [0..<K]"
    by (rule transpose_rectangle) (use ne rect in \<open>simp_all add: K_def\<close>)
  have cs: "cs = map (\<lambda>c. sum_list (map (\<lambda>r. sync ! r ! c) [0..<length sync])) [0..<K]"
    by (simp add: cs_def tr comp_def)
  have col_nn: "\<forall>x\<in>set (map (\<lambda>r. sync ! r ! c) [0..<length sync]). 0 \<le> x" if "c < K" for c
    using that nn by (auto simp: K_def)
  have cs_nn: "0 \<le> cs ! c" if "c < K" for c
  proof -
    have "0 \<le> sum_list (map (\<lambda>r. sync ! r ! c) [0..<length sync])"
      by (rule sum_list_nonneg) (use col_nn [OF that] in blast)
    then show ?thesis using that by (simp add: cs)
  qed
  have c0: "c0 < K" using hot(2) by (simp add: K_def)
  have "sync ! r0 ! c0 \<in> set (map (\<lambda>r. sync ! r ! c0) [0..<length sync])"
    using hot(1) by auto
  from elem_le_sum_list [OF col_nn [OF c0] this] hot c0
  have cs_hot: "1 \<le> cs ! c0" by (simp add: cs)
  have lbl: "length bl = K" by (simp add: bl_def cs lold K_def)
  have blc: "bl ! c = ema_cluster_size self ! c * decay self + (1 - decay self) * cs ! c"
    if "c < K" for c
    using that lold by (simp add: bl_def cs K_def)
  have old_nn: "0 \<le> ema_cluster_size self ! c" if "c < K" for c
    using that old lold by (simp add: K_def)
  have bl_nn: "0 \<le> bl ! c" if "c < K" for c
    using that d old_nn [OF that] cs_nn [OF that] by (simp add: blc)
  have "0 < (1 - decay self) * cs ! c0" using d cs_hot by simp
  moreover have "0 \<le> ema_cluster_size self ! c0 * decay self" using d old_nn [OF c0] by simp
  ultimately have bl_hot: "0 < bl ! c0" by (simp add: blc [OF c0] add_nonneg_pos)
  have all_nn: "\<forall>x\<in>set bl. 0 \<le> x"
    using bl_nn lbl by (auto simp: in_set_conv_nth)
  have "bl ! c0 \<in> set bl" using c0 lbl by simp
  from elem_le_sum_list [OF all_nn this] bl_hot have "0 < sum_list bl" by simp
  from laplace_smooth_pos [OF all_nn this, of K]
  show ?thesis by (simp add: cluster_size_update_def bl_def cs_def K_def)
qed

lemma length_laplace_smooth: "length (laplace_smooth k s) = length s"
  by (simp add: laplace_smooth_def Let_def)

lemma all_reduce_length:
  "n \<le> length c \<Longrightarrow> \<forall>p\<in>set peers. n \<le> length p \<Longrightarrow> n \<le> length (all_reduce c peers)"
  unfolding all_reduce_def by (induction peers arbitrary: c) simp_all

lemma all_reduce_ge:
  "i < n \<Longrightarrow> n \<le> length c \<Longrightarrow> \<forall>p\<in>set peers. n \<le> length p \<and> (\<forall>i<n. 0 \<le> p ! i)
   \<Longrightarrow> c ! i \<le> all_reduce c peers ! i"
  unfolding all_reduce_def
proof (induction peers arbitrary: c)
  case Nil
  then show ?case by simp
next
  case (Cons p ps)
  have len: "n \<le> length (map2 (+) c p)" using Cons.prems by simp
  have "c ! i \<le> map2 (+) c p ! i" using Cons.prems by simp
  also have "\<dots> \<le> foldl (map2 (+)) (map2 (+) c p) ps ! i"
    using Cons.IH [OF Cons.prems(1) len] Cons.prems(3) by simp
  finally show ?case by simp
qed

lemma index_bound: "r < n \<Longrightarrow> c < k \<Longrightarrow> r * k + c < n * (k::nat)"
proof -
  assume "r < n" "c < k"
  then have "r * k + c < Suc r * k" by simp
  also have "\<dots> \<le> n * k" using \<open>r < n\<close> by (intro mult_le_mono1) simp
  finally show ?thesis .
qed

lemma length_concat_rect:
  "\<forall>row\<in>set m. length row = k \<Longrightarrow> length (concat m) = length m * k"
  by (induction m) simp_all

lemma concat_nth_rect:
  "\<forall>row\<in>set m. length row = k \<Longrightarrow> r < length m \<Longrightarrow> c < k
   \<Longrightarrow> concat m ! (r * k + c) = m ! r ! c"
proof (induction m arbitrary: r)
  case Nil
  then show ?case by simp
next
  case (Cons a m)
  show ?case
  proof (cases r)
    case 0
    then show ?thesis using Cons.prems by (simp add: nth_append)
  next
    case (Suc r')
    then have "concat (a # m) ! (r * k + c) = concat m ! (r' * k + c)"
      using Cons.prems by (simp add: nth_append)
    then show ?thesis using Cons Suc by simp
  qed
qed

lemma view2_rows:
  assumes "r < n" and "n * k \<le> length xs"
  shows "length (view2 (n, k) xs) = n"
    and "length (view2 (n, k) xs ! r) = k"
    and "c < k \<Longrightarrow> view2 (n, k) xs ! r ! c = xs ! (r * k + c)"
proof -
  have "Suc r * k \<le> n * k" using assms(1) by (intro mult_le_mono1) simp
  with assms(2) have b: "r * k + k \<le> length xs" by simp
  show "length (view2 (n, k) xs) = n" by (simp add: view2_def)
  show "length (view2 (n, k) xs ! r) = k" using assms(1) b by (simp add: view2_def)
  show "view2 (n, k) xs ! r ! c = xs ! (r * k + c)" if "c < k"
    using assms(1) b that by (simp add: view2_def)
qed

lemma length_cluster_size_update:
  "length (cluster_size_update self sync)
     = min (length (ema_cluster_size self)) (length (transpose sync))"
  by (simp add: cluster_size_update_def length_laplace_smooth)

text \<open>
  Claim C10. Whenever the update branch of \<open>forward\<close> runs (\<open>train\<close> holds, stage
  \<open>tokenizer\<close>) on \<open>N \<ge> 1\<close> feature rows, with \<open>decay\<close> strictly between 0 and 1 and all
  prior entries of \<open>ema_cluster_size\<close> nonnegative, every entry of \<open>ema_cluster_size\<close> is
  strictly positive after the smoothed renormalisation, so the division
  \<open>ema_w / ema_cluster_size\<close> never divides by zero. The buffers have their registered shapes
  (\<open>token_class_num\<close> entries, at least one), and each other worker contributes a payload that
  begins with its \<open>N * token_class_num\<close> nonnegative assignment entries.
\<close>

theorem cluster_size_positive:
  assumes train: "train" and stage: "stage_pct self = ''tokenizer''"
    and d: "0 < decay self" "decay self < 1"
    and old: "\<forall>x\<in>set (ema_cluster_size self). 0 \<le> x"
    and lold: "length (ema_cluster_size self) = token_class_num self"
    and lcb: "length (codebook self) = token_class_num self"
    and kpos: "0 < token_class_num self"
    and N: "N = length (encode self (masked_features self joints joints_feature train rnd))"
    and npos: "1 \<le> N"
    and peers: "\<forall>p\<in>set peers. N * token_class_num self \<le> length p
                  \<and> (\<forall>i<N * token_class_num self. 0 \<le> p ! i)"
    and self': "self' = fst (forward self joints joints_feature cls_logits train rnd peers)"
  shows "length (ema_cluster_size self') = token_class_num self
       \<and> (\<forall>c<token_class_num self. 0 < ema_cluster_size self' ! c)"
proof -
  define K where "K = token_class_num self"
  define feat where "feat = encode self (masked_features self joints joints_feature train rnd)"
  define idx where "idx = nearest feat (codebook self)"
  define enc where "enc = map (one_hot K) idx"
  define dw where "dw = matmul (transpose enc) feat"
  define red where "red = all_reduce (concat enc @ concat dw) peers"
  define sync where "sync = view2 (shape2 enc) (take (length (concat enc)) red)"
  have upd: "ema_cluster_size self' = cluster_size_update self sync"
    using train stage
    by (simp add: self' forward_def Let_def ema_update_def ema_assign_def sync_def red_def
        dw_def enc_def idx_def feat_def K_def)
  have lidx: "length idx = N" by (simp add: idx_def nearest_def distances_def feat_def N)
  have idx_less: "idx ! r < K" if "r < N" for r
  proof -
    have "idx ! r = argmin (distances feat (codebook self) ! r)"
      using that by (simp add: idx_def nearest_def distances_def feat_def N)
    moreover have "distances feat (codebook self) ! r \<noteq> []"
      using that lcb kpos by (auto simp: distances_def feat_def N)
    moreover have "length (distances feat (codebook self) ! r) = K"
      using that lcb by (simp add: distances_def feat_def N K_def)
    ultimately show ?thesis using argmin_less [of "distances feat (codebook self) ! r"] by simp
  qed
  have lenc: "length enc = N" by (simp add: enc_def lidx)
  have rect: "\<forall>row\<in>set enc. length row = K" by (auto simp: enc_def one_hot_def)
  have enc_nth: "enc ! r ! c = (if c = idx ! r then 1 else 0)" if "r < N" "c < K" for r c
    using that by (simp add: enc_def one_hot_def lidx)
  have "enc \<noteq> []" using lenc npos by auto
  then have sh: "shape2 enc = (N, K)"
    using rect lenc by (cases enc) (simp_all add: shape2_def)
  have lcat: "length (concat enc) = N * K"
    using length_concat_rect [OF rect] by (simp add: lenc)
  have sync: "sync = view2 (N, K) (take (N * K) red)"
    by (simp add: sync_def sh lcat)
  have pre: "N * K \<le> length (concat enc @ concat dw)" by (simp add: lcat)
  have peers_len: "\<forall>p\<in>set peers. N * K \<le> length p" using peers by (simp add: K_def)
  have lred: "N * K \<le> length red"
    unfolding red_def by (rule all_reduce_length [OF pre peers_len])
  then have ltake: "N * K \<le> length (take (N * K) red)" by simp
  have red_ge: "enc ! r ! c \<le> red ! (r * K + c)" if "r < N" "c < K" for r c
  proof -
    have i: "r * K + c < N * K" using that by (rule index_bound)
    have "enc ! r ! c = concat enc ! (r * K + c)"
      using concat_nth_rect [OF rect, of r c] that by (simp add: lenc)
    also have "\<dots> = (concat enc @ concat dw) ! (r * K + c)"
      using i by (simp add: nth_append lcat)
    also have "\<dots> \<le> red ! (r * K + c)"
      unfolding red_def using peers by (intro all_reduce_ge [OF i pre]) (simp add: K_def)
    finally show ?thesis .
  qed
  have sync_nth: "sync ! r ! c = red ! (r * K + c)" if "r < N" "c < K" for r c
  proof -
    have "r * K + c < N * K" using that by (rule index_bound)
    then show ?thesis using view2_rows(3) [OF that(1) ltake that(2)] by (simp add: sync)
  qed
  have lsync: "length sync = N"
    using view2_rows(1) [OF _ ltake, of 0] npos by (simp add: sync)
  have sync_ne: "sync \<noteq> []" using lsync npos by auto
  have sync_rect: "length (sync ! r) = token_class_num self" if "r < length sync" for r
  proof -
    have "r < N" using that by (simp add: lsync)
    from view2_rows(2) [OF this ltake] show ?thesis by (simp add: sync K_def)
  qed
  have sync_nn: "0 \<le> sync ! r ! c" if "r < length sync" "c < token_class_num self" for r c
  proof -
    have rc: "r < N" "c < K" using that by (simp_all add: lsync K_def)
    have "0 \<le> enc ! r ! c" by (simp add: enc_nth [OF rc])
    also have "\<dots> \<le> sync ! r ! c" using red_ge [OF rc] by (simp add: sync_nth [OF rc])
    finally show ?thesis .
  qed
  have r0: "0 < length sync" using lsync npos by simp
  have n0: "0 < N" using npos by simp
  have c0: "idx ! 0 < token_class_num self" using idx_less [OF n0] by (simp add: K_def)
  have hot: "1 \<le> sync ! 0 ! (idx ! 0)"
    using red_ge [OF n0 idx_less [OF n0]]
    by (simp add: sync_nth [OF n0 idx_less [OF n0]] enc_nth [OF n0 idx_less [OF n0]])
  have pos: "\<forall>x\<in>set (cluster_size_update self sync). 0 < x"
    by (rule cluster_size_update_pos [OF d old lold sync_ne sync_rect sync_nn r0 c0 hot])
  have "transpose sync = map (\<lambda>c. map (\<lambda>r. sync ! r ! c) [0..<length sync]) [0..<token_class_num self]"
    by (rule transpose_rectangle) (use sync_ne sync_rect in simp_all)
  then have len: "length (cluster_size_update self sync) = token_class_num self"
    by (simp add: length_cluster_size_update lold)
  show ?thesis using pos len by (simp add: upd)
qed

theorem cluster_size_positive_witness:
  "stage_pct (small_module ''tokenizer'') = ''tokenizer''
   \<and> 0 < decay (small_module ''tokenizer'') \<and> decay (small_module ''tokenizer'') < 1
   \<and> ema_cluster_size (small_module ''tokenizer'') = [0, 0]
   \<and> length (codebook (small_module ''tokenizer'')) = token_class_num (small_module ''tokenizer'')
   \<and> token_class_num (small_module ''tokenizer'') = 2
   \<and> (1::nat) = length (encode (small_module ''tokenizer'')
         (masked_features (small_module ''tokenizer'') [[[0, 0, 1]]] [] True draw_one))
   \<and> length (ema_cluster_size
         (fst (forward (small_module ''tokenizer'') [[[0, 0, 1]]] [] [] True draw_one
                 [[1, 0, 0, 0]]))) = 2
   \<and> 0 < ema_cluster_size
           (fst (forward (small_module ''tokenizer'') [[[0, 0, 1]]] [] [] True draw_one
                   [[1, 0, 0, 0]])) ! 0
   \<and> 0 < ema_cluster_size
           (fst (forward (small_module ''tokenizer'') [[[0, 0, 1]]] [] [] True draw_one
                   [[1, 0, 0, 0]])) ! 1"
proof -
  have s: "stage_pct (small_module ''tokenizer'') = ''tokenizer''"
    and d: "0 < decay (small_module ''tokenizer'')" "decay (small_module ''tokenizer'') < 1"
    and old: "\<forall>x\<in>set (ema_cluster_size (small_module ''tokenizer'')). 0 \<le> x"
    and lold: "length (ema_cluster_size (small_module ''tokenizer''))
       = token_class_num (small_module ''tokenizer'')"
    and lcb: "length (codebook (small_module ''tokenizer''))
       = token_class_num (small_module ''tokenizer'')"
    and kpos: "0 < token_class_num (small_module ''tokenizer'')"
    and k: "token_class_num (small_module ''tokenizer'') = 2"
    and z: "ema_cluster_size (small_module ''tokenizer'') = [0, 0]"
    by (simp_all add: small_module_def)
  have N: "(1::nat) = length (encode (small_module ''tokenizer'')
         (masked_features (small_module ''tokenizer'') [[[0, 0, 1]]] [] True draw_one))"
    by (simp add: small_eval)
  have p: "\<forall>p\<in>set [[1, 0, 0, 0 :: real]]. 1 * token_class_num (small_module ''tokenizer'') \<le> length p
         \<and> (\<forall>i<1 * token_class_num (small_module ''tokenizer''). 0 \<le> p ! i)"
    by (simp add: small_module_def nth_Cons')
  have "(0::nat) < 2" and "(1::nat) < 2" by simp_all
  then show ?thesis
    using s d lcb k z N
      cluster_size_positive [where cls_logits = "[]",
        OF TrueI s d old lold lcb kpos N order_refl p refl]
    unfolding k by blast
qed

end
